theory Spec2Isabelle
  imports Complex_Main
begin

section \<open>JavaScript values used by the calendar\<close>

subsection \<open>Numbers\<close>

text \<open>
  A JavaScript number is NaN, one of the two infinities, or a finite value. Finite values
  are kept as exact rationals: the rounding of doubles, overflow to Infinity and the sign
  of zero are not part of this model. On the integers that times of day produce
  (all far below \<open>2^53\<close>) doubles are exact.
\<close>

datatype jsnum = NaN | PInf | NInf | Fin rat

fun js_neg :: "jsnum \<Rightarrow> jsnum" where
  "js_neg NaN = NaN"
| "js_neg PInf = NInf"
| "js_neg NInf = PInf"
| "js_neg (Fin a) = Fin (- a)"

fun js_add :: "jsnum \<Rightarrow> jsnum \<Rightarrow> jsnum" where
  "js_add NaN _ = NaN"
| "js_add _ NaN = NaN"
| "js_add PInf NInf = NaN"
| "js_add NInf PInf = NaN"
| "js_add PInf _ = PInf"
| "js_add _ PInf = PInf"
| "js_add NInf _ = NInf"
| "js_add _ NInf = NInf"
| "js_add (Fin a) (Fin b) = Fin (a + b)"

definition js_sub :: "jsnum \<Rightarrow> jsnum \<Rightarrow> jsnum" where
  "js_sub a b = js_add a (js_neg b)"

text \<open>The sign of a number that is not NaN: \<open>-1\<close>, \<open>0\<close> or \<open>1\<close>.\<close>

fun js_sign :: "jsnum \<Rightarrow> int" where
  "js_sign NaN = 0"
| "js_sign PInf = 1"
| "js_sign NInf = - 1"
| "js_sign (Fin a) = (if a < 0 then - 1 else if a = 0 then 0 else 1)"

fun js_mul :: "jsnum \<Rightarrow> jsnum \<Rightarrow> jsnum" where
  "js_mul NaN _ = NaN"
| "js_mul _ NaN = NaN"
| "js_mul (Fin a) (Fin b) = Fin (a * b)"
| "js_mul a b =
     (let s = js_sign a * js_sign b
      in if s = 0 then NaN else if 0 < s then PInf else NInf)"

text \<open>Division by a finite, non-zero constant (the code only divides by 60).\<close>

fun js_div_const :: "jsnum \<Rightarrow> rat \<Rightarrow> jsnum" where
  "js_div_const (Fin a) c = Fin (a / c)"
| "js_div_const NaN c = NaN"
| "js_div_const PInf c = (if 0 < c then PInf else NInf)"
| "js_div_const NInf c = (if 0 < c then NInf else PInf)"

text \<open>\<open>a < b\<close>: false as soon as one side is NaN.\<close>

fun js_lt :: "jsnum \<Rightarrow> jsnum \<Rightarrow> bool" where
  "js_lt (Fin a) (Fin b) = (a < b)"
| "js_lt NInf (Fin b) = True"
| "js_lt NInf PInf = True"
| "js_lt (Fin a) PInf = True"
| "js_lt _ _ = False"

text \<open>\<open>a <= b\<close>: false as soon as one side is NaN.\<close>

definition js_le :: "jsnum \<Rightarrow> jsnum \<Rightarrow> bool" where
  "js_le a b = (a \<noteq> NaN \<and> b \<noteq> NaN \<and> (a = b \<or> js_lt a b))"

text \<open>\<open>Math.max\<close> and \<open>Math.min\<close> of two arguments: NaN if either is NaN.\<close>

definition js_max :: "jsnum \<Rightarrow> jsnum \<Rightarrow> jsnum" where
  "js_max a b = (if a = NaN \<or> b = NaN then NaN else if js_lt a b then b else a)"

definition js_min :: "jsnum \<Rightarrow> jsnum \<Rightarrow> jsnum" where
  "js_min a b = (if a = NaN \<or> b = NaN then NaN else if js_lt b a then b else a)"

subsection \<open>Strings\<close>

text \<open>
  A string is the list of its UTF-16 code units; the model covers the strings whose code
  units are all below 256, one \<open>char\<close> each.
\<close>

definition is_ws :: "char \<Rightarrow> bool" where
  "is_ws c = (of_char c \<in> {9, 10, 11, 12, 13, 32, 160 :: nat})"

text \<open>\<open>String.prototype.trim\<close>.\<close>

definition trim :: "string \<Rightarrow> string" where
  "trim s = rev (dropWhile is_ws (rev (dropWhile is_ws s)))"

text \<open>\<open>String.prototype.toLowerCase\<close> on code units below 256 (Latin-1).\<close>

definition lower_char :: "char \<Rightarrow> char" where
  "lower_char c =
     (let n = (of_char c :: nat)
      in if (65 \<le> n \<and> n \<le> 90) \<or> (192 \<le> n \<and> n \<le> 222 \<and> n \<noteq> 215)
         then char_of (n + 32) else c)"

definition toLowerCase :: "string \<Rightarrow> string" where
  "toLowerCase s = map lower_char s"

text \<open>\<open>a < b\<close> on strings: lexicographic on code units.\<close>

fun js_str_lt :: "string \<Rightarrow> string \<Rightarrow> bool" where
  "js_str_lt [] [] = False"
| "js_str_lt [] (y # ys) = True"
| "js_str_lt (x # xs) [] = False"
| "js_str_lt (x # xs) (y # ys) =
     (if (of_char x :: nat) < of_char y then True
      else if (of_char y :: nat) < of_char x then False
      else js_str_lt xs ys)"

definition js_str_ge :: "string \<Rightarrow> string \<Rightarrow> bool" where
  "js_str_ge a b = (\<not> js_str_lt a b)"

text \<open>\<open>s.split(c)\<close> for a one-character separator.\<close>

fun split_on :: "char \<Rightarrow> string \<Rightarrow> string list" where
  "split_on c [] = [[]]"
| "split_on c (x # xs) =
     (if x = c then [] # split_on c xs
      else (case split_on c xs of [] \<Rightarrow> [[x]] | p # ps \<Rightarrow> (x # p) # ps))"

subsection \<open>Number(string)\<close>

definition is_digit :: "char \<Rightarrow> bool" where
  "is_digit c = (48 \<le> (of_char c :: nat) \<and> (of_char c :: nat) \<le> 57)"

text \<open>The value of a digit in any radix up to 16; 16 for a character that is none.\<close>

definition digit_val :: "char \<Rightarrow> nat" where
  "digit_val c =
     (let n = (of_char c :: nat)
      in if 48 \<le> n \<and> n \<le> 57 then n - 48
         else if 97 \<le> n \<and> n \<le> 102 then n - 87
         else if 65 \<le> n \<and> n \<le> 70 then n - 55
         else 16)"

definition radix_val :: "nat \<Rightarrow> string \<Rightarrow> nat" where
  "radix_val b s = foldl (\<lambda>a c. b * a + digit_val c) 0 s"

definition dec_val :: "string \<Rightarrow> nat" where
  "dec_val s = radix_val 10 s"

text \<open>\<open>0x\<close>, \<open>0o\<close> and \<open>0b\<close> literals: at least one digit, all below the radix.\<close>

definition NonDecimalIntegerLiteral :: "nat \<Rightarrow> string \<Rightarrow> jsnum" where
  "NonDecimalIntegerLiteral b s =
     (if s \<noteq> [] \<and> list_all (\<lambda>c. digit_val c < b) s then Fin (of_nat (radix_val b s)) else NaN)"

definition DecimalDigits :: "string \<Rightarrow> nat option" where
  "DecimalDigits d = (if d \<noteq> [] \<and> list_all is_digit d then Some (dec_val d) else None)"

text \<open>The exponent of a decimal literal: 0 when there is none, None when ill-formed.\<close>

definition ExponentPart :: "string \<Rightarrow> int option" where
  "ExponentPart r =
     (case r of
        [] \<Rightarrow> Some 0
      | c # d \<Rightarrow>
          if c = CHR ''e'' \<or> c = CHR ''E'' then
            (case d of
               [] \<Rightarrow> None
             | s # d' \<Rightarrow>
                 if s = CHR ''+'' then map_option int (DecimalDigits d')
                 else if s = CHR ''-'' then map_option (\<lambda>n. - int n) (DecimalDigits d')
                 else map_option int (DecimalDigits d))
          else None)"

definition pow10 :: "int \<Rightarrow> rat" where
  "pow10 e = (if 0 \<le> e then 10 ^ nat e else 1 / 10 ^ nat (- e))"

definition StrUnsignedDecimalLiteral :: "string \<Rightarrow> jsnum" where
  "StrUnsignedDecimalLiteral u =
     (if u = ''Infinity'' then PInf
      else
        let ip = takeWhile is_digit u;
            r1 = dropWhile is_digit u;
            fp = (case r1 of [] \<Rightarrow> [] | c # r \<Rightarrow> if c = CHR ''.'' then takeWhile is_digit r else []);
            r2 = (case r1 of [] \<Rightarrow> [] | c # r \<Rightarrow> if c = CHR ''.'' then dropWhile is_digit r else r1)
        in if ip = [] \<and> fp = [] then NaN
           else (case ExponentPart r2 of
                   None \<Rightarrow> NaN
                 | Some e \<Rightarrow>
                     Fin ((of_nat (dec_val ip) + of_nat (dec_val fp) / 10 ^ length fp) * pow10 e)))"

definition StrDecimalLiteral :: "string \<Rightarrow> jsnum" where
  "StrDecimalLiteral t =
     (case t of
        [] \<Rightarrow> NaN
      | c # u \<Rightarrow>
          if c = CHR ''+'' then StrUnsignedDecimalLiteral u
          else if c = CHR ''-'' then js_neg (StrUnsignedDecimalLiteral u)
          else StrUnsignedDecimalLiteral t)"

text \<open>
  \<open>Number(s)\<close> for a string: white space is trimmed, the empty string is 0, and what is
  left must be one numeric literal, otherwise the result is NaN.
\<close>

definition js_Number :: "string \<Rightarrow> jsnum" where
  "js_Number s =
     (let t = trim s
      in if t = [] then Fin 0
         else (case t of
                 c0 # c1 # r \<Rightarrow>
                   if c0 = CHR ''0'' \<and> (c1 = CHR ''x'' \<or> c1 = CHR ''X'') then NonDecimalIntegerLiteral 16 r
                   else if c0 = CHR ''0'' \<and> (c1 = CHR ''o'' \<or> c1 = CHR ''O'') then NonDecimalIntegerLiteral 8 r
                   else if c0 = CHR ''0'' \<and> (c1 = CHR ''b'' \<or> c1 = CHR ''B'') then NonDecimalIntegerLiteral 2 r
                   else StrDecimalLiteral t
               | _ \<Rightarrow> StrDecimalLiteral t))"

section \<open>Time arithmetic\<close>

text \<open>
  \<open>timeToMinutes\<close> of the calendar grid. The guard returns 0 for the empty string and for
  a string without a colon; after it, \<open>split\<close> gives at least two parts, of which the
  first two are converted with \<open>Number\<close>. (With fewer than two parts the second would be
  \<open>undefined\<close> and the sum NaN.)
\<close>

definition timeToMinutes :: "string \<Rightarrow> jsnum" where
  "timeToMinutes time =
     (if time = [] \<or> CHR '':'' \<notin> set time then Fin 0
      else (case map js_Number (split_on (CHR '':'') time) of
              hours # minutes # _ \<Rightarrow>
                if hours = Fin 24 \<and> minutes = Fin 0 then Fin (24 * 60)
                else js_add (js_mul hours (Fin 60)) minutes
            | _ \<Rightarrow> NaN))"

section \<open>Data model\<close>

record ToDoItem =
  todo_id :: string
  todo_text :: string
  todo_completed :: bool

text \<open>The \<open>date\<close> of an event is a \<open>Date\<close>, kept as its time value in milliseconds.\<close>

record Event =
  ev_id :: string
  ev_title :: string
  ev_description :: "string option"
  ev_date :: int
  ev_startTime :: string
  ev_endTime :: string
  ev_color :: string
  ev_todos :: "ToDoItem list"

text \<open>\<open>Array.prototype.findIndex\<close>: the first index whose element satisfies \<open>p\<close>, else \<open>-1\<close>.\<close>

fun findIndex :: "('a \<Rightarrow> bool) \<Rightarrow> 'a list \<Rightarrow> int" where
  "findIndex p [] = - 1"
| "findIndex p (x # xs) =
     (if p x then 0 else (let r = findIndex p xs in if r = - 1 then - 1 else r + 1))"

section \<open>Overlap layout of a day (CalendarGrid)\<close>

text \<open>
  \<open>Array.prototype.sort\<close> is stable, and a comparator result that is NaN counts as 0.
  For a consistent comparator every stable sort gives the same list; the model sorts by
  insertion, from the right. \<open>String.prototype.localeCompare\<close> depends on the host's
  collation and is a parameter \<open>lc\<close>.
\<close>

fun insert_sorted :: "('a \<Rightarrow> 'a \<Rightarrow> jsnum) \<Rightarrow> 'a \<Rightarrow> 'a list \<Rightarrow> 'a list" where
  "insert_sorted cmp x [] = [x]"
| "insert_sorted cmp x (y # ys) =
     (if js_lt (Fin 0) (cmp x y) then y # insert_sorted cmp x ys else x # y # ys)"

definition js_sort :: "('a \<Rightarrow> 'a \<Rightarrow> jsnum) \<Rightarrow> 'a list \<Rightarrow> 'a list" where
  "js_sort cmp xs = foldr (insert_sorted cmp) xs []"

definition dayEventsOf :: "(int \<Rightarrow> string) \<Rightarrow> Event list \<Rightarrow> int \<Rightarrow> Event list" where
  "dayEventsOf toDateString events date =
     filter (\<lambda>e. toDateString (ev_date e) = toDateString date) events"

definition compareEvents :: "(string \<Rightarrow> string \<Rightarrow> int) \<Rightarrow> Event \<Rightarrow> Event \<Rightarrow> jsnum" where
  "compareEvents lc a b =
     (let startDiff = js_sub (timeToMinutes (ev_startTime a)) (timeToMinutes (ev_startTime b))
      in if startDiff \<noteq> Fin 0 then startDiff else Fin (of_int (lc (ev_id a) (ev_id b))))"

definition isConcurrent :: "Event \<Rightarrow> Event \<Rightarrow> bool" where
  "isConcurrent event e =
     (let myStart = timeToMinutes (ev_startTime event);
          myEnd = timeToMinutes (ev_endTime event);
          otherStart = timeToMinutes (ev_startTime e);
          otherEnd = timeToMinutes (ev_endTime e)
      in js_lt (js_max myStart otherStart) (js_min myEnd otherEnd))"

definition concurrentEvents :: "(string \<Rightarrow> string \<Rightarrow> int) \<Rightarrow> Event list \<Rightarrow> Event \<Rightarrow> Event list" where
  "concurrentEvents lc dayEvents event =
     js_sort (compareEvents lc) (filter (isConcurrent event) dayEvents)"

definition numConcurrent :: "(string \<Rightarrow> string \<Rightarrow> int) \<Rightarrow> Event list \<Rightarrow> Event \<Rightarrow> nat" where
  "numConcurrent lc dayEvents event =
     (let n = length (concurrentEvents lc dayEvents event) in if n = 0 then 1 else n)"

definition myIndex :: "(string \<Rightarrow> string \<Rightarrow> int) \<Rightarrow> Event list \<Rightarrow> Event \<Rightarrow> int" where
  "myIndex lc dayEvents event =
     findIndex (\<lambda>e. ev_id e = ev_id event) (concurrentEvents lc dayEvents event)"

text \<open>
  The two numbers of the layout, in percent of the day column: \<open>width\<close> is
  \<open>100 / numConcurrent\<close> and \<open>left\<close> is \<open>myIndex * width\<close>. Both are finite.
\<close>

record Layout =
  lay_width :: rat
  lay_left :: rat

definition layoutOf :: "(string \<Rightarrow> string \<Rightarrow> int) \<Rightarrow> Event list \<Rightarrow> Event \<Rightarrow> Layout" where
  "layoutOf lc dayEvents event =
     (let width = 100 / of_nat (numConcurrent lc dayEvents event);
          left = of_int (myIndex lc dayEvents event) * width
      in \<lparr>lay_width = width, lay_left = left\<rparr>)"

definition eventsWithLayout ::
  "(string \<Rightarrow> string \<Rightarrow> int) \<Rightarrow> Event list \<Rightarrow> (Event \<times> Layout) list" where
  "eventsWithLayout lc dayEvents = map (\<lambda>event. (event, layoutOf lc dayEvents event)) dayEvents"

definition HOUR_HEIGHT_IN_REM :: rat where
  "HOUR_HEIGHT_IN_REM = 7"

text \<open>The style of one rendered event; the height of an hour is a parameter.\<close>

record EventStyle =
  st_top :: jsnum
  st_height :: jsnum
  st_width :: rat
  st_left :: rat

definition eventStyle :: "rat \<Rightarrow> Event \<times> Layout \<Rightarrow> EventStyle" where
  "eventStyle hourHeight el =
     (let event = fst el;
          startMinutes = timeToMinutes (ev_startTime event);
          endMinutes = timeToMinutes (ev_endTime event);
          durationInMinutes = js_max (Fin 5) (js_sub endMinutes startMinutes);
          topRem = js_mul (js_div_const startMinutes 60) (Fin hourHeight);
          heightRem = js_mul (js_div_const durationInMinutes 60) (Fin hourHeight)
      in \<lparr>st_top = topRem, st_height = heightRem,
          st_width = lay_width (snd el), st_left = lay_left (snd el)\<rparr>)"

definition renderDay :: "(string \<Rightarrow> string \<Rightarrow> int) \<Rightarrow> rat \<Rightarrow> Event list \<Rightarrow> EventStyle list" where
  "renderDay lc hourHeight dayEvents = map (eventStyle hourHeight) (eventsWithLayout lc dayEvents)"

text \<open>The layout descriptor of the specification: widths and offsets as fractions of the column.\<close>

record Descriptor =
  widthFraction :: rat
  leftOffsetFraction :: rat
  desc_top :: jsnum
  desc_height :: jsnum

definition descriptorOf :: "(string \<Rightarrow> string \<Rightarrow> int) \<Rightarrow> rat \<Rightarrow> Event list \<Rightarrow> Event \<Rightarrow> Descriptor" where
  "descriptorOf lc hourHeight dayEvents event =
     (let st = eventStyle hourHeight (event, layoutOf lc dayEvents event)
      in \<lparr>widthFraction = st_width st / 100, leftOffsetFraction = st_left st / 100,
          desc_top = st_top st, desc_height = st_height st\<rparr>)"

subsection \<open>The reference descriptor, as the specification words it\<close>

definition spec_start :: "Event \<Rightarrow> jsnum" where
  "spec_start e = timeToMinutes (ev_startTime e)"

definition spec_end :: "Event \<Rightarrow> jsnum" where
  "spec_end e = timeToMinutes (ev_endTime e)"

definition spec_overlap :: "Event \<Rightarrow> Event \<Rightarrow> bool" where
  "spec_overlap e o' = js_lt (js_max (spec_start e) (spec_start o')) (js_min (spec_end e) (spec_end o'))"

text \<open>Start ascending, the id ascending where the starts are equal.\<close>

definition spec_before :: "(string \<Rightarrow> string \<Rightarrow> int) \<Rightarrow> Event \<Rightarrow> Event \<Rightarrow> bool" where
  "spec_before lc a b =
     (js_lt (spec_start a) (spec_start b) \<or>
      (spec_start a = spec_start b \<and> lc (ev_id a) (ev_id b) \<le> 0))"

fun spec_insert :: "('a \<Rightarrow> 'a \<Rightarrow> bool) \<Rightarrow> 'a \<Rightarrow> 'a list \<Rightarrow> 'a list" where
  "spec_insert le x [] = [x]"
| "spec_insert le x (y # ys) = (if le x y then x # y # ys else y # spec_insert le x ys)"

definition spec_cluster :: "(string \<Rightarrow> string \<Rightarrow> int) \<Rightarrow> Event list \<Rightarrow> Event \<Rightarrow> Event list" where
  "spec_cluster lc day e = foldr (spec_insert (spec_before lc)) (filter (spec_overlap e) day) []"

fun spec_position :: "'a \<Rightarrow> 'a list \<Rightarrow> nat option" where
  "spec_position e [] = None"
| "spec_position e (x # xs) = (if x = e then Some 0 else map_option Suc (spec_position e xs))"

definition spec_descriptor ::
  "(string \<Rightarrow> string \<Rightarrow> int) \<Rightarrow> rat \<Rightarrow> Event list \<Rightarrow> Event \<Rightarrow> Descriptor option" where
  "spec_descriptor lc hourHeight day e =
     (let c = spec_cluster lc day e; n = length c
      in map_option
           (\<lambda>k. \<lparr>widthFraction = 1 / of_nat n, leftOffsetFraction = of_nat k / of_nat n,
                 desc_top = js_mul (js_div_const (spec_start e) 60) (Fin hourHeight),
                 desc_height = js_mul (js_div_const (js_max (Fin 5) (js_sub (spec_end e) (spec_start e))) 60)
                            (Fin hourHeight)\<rparr>)
           (spec_position e c))"

section \<open>Objects as dictionaries\<close>

text \<open>
  The category map is an object used as a dictionary from names to colours. It is the
  list of its own properties in enumeration order: keys that are array indices first, in
  ascending numeric order, then the other keys in insertion order. Properties inherited
  from \<open>Object.prototype\<close> are not modelled.
\<close>

type_synonym colorMap = "(string \<times> string) list"

definition Object_values :: "colorMap \<Rightarrow> string list" where
  "Object_values m = map snd m"

definition is_array_index :: "string \<Rightarrow> bool" where
  "is_array_index k =
     (k \<noteq> [] \<and> list_all is_digit k \<and> (k = ''0'' \<or> hd k \<noteq> CHR ''0'') \<and> dec_val k < 4294967295)"

fun obj_insert :: "string \<Rightarrow> string \<Rightarrow> colorMap \<Rightarrow> colorMap" where
  "obj_insert k v [] = [(k, v)]"
| "obj_insert k v ((k', v') # m) =
     (if is_array_index k \<and> (\<not> is_array_index k' \<or> dec_val k < dec_val k')
      then (k, v) # (k', v') # m
      else (k', v') # obj_insert k v m)"

text \<open>\<open>obj[k] = v\<close>.\<close>

definition obj_set :: "colorMap \<Rightarrow> string \<Rightarrow> string \<Rightarrow> colorMap" where
  "obj_set m k v =
     (if k \<in> fst ` set m then map (\<lambda>kv. if fst kv = k then (k, v) else kv) m
      else obj_insert k v m)"

section \<open>Assistant actions (App.applyAssistantActions)\<close>

definition AVAILABLE_COLORS :: "string list" where
  "AVAILABLE_COLORS = [''blue'', ''green'', ''red'', ''purple'', ''yellow'', ''indigo'', ''pink'',
     ''orange'', ''teal'', ''cyan'', ''emerald'', ''gray'']"

text \<open>A partial todo of an action; \<open>None\<close> in a list of them is an entry that is no object.\<close>

record ToDoInput =
  ti_id :: "string option"
  ti_text :: "string option"
  ti_completed :: "bool option"

record AssistantEventInput =
  in_id :: "string option"
  in_title :: "string option"
  in_description :: "string option"
  in_date :: "string option"
  in_startTime :: "string option"
  in_endTime :: "string option"
  in_color :: "string option"
  in_category :: "string option"
  in_todos :: "ToDoInput option list option"

datatype ActionType = Create | Update | Delete

record AssistantAction =
  act_type :: ActionType
  act_event :: "AssistantEventInput option"

text \<open>
  What the environment gives while one action is processed: the reading of \<open>Date.now()\<close>
  and the ids that \<open>generateTodoId\<close> returns (clock and random digits), by position of the
  todo in its list.
\<close>

record Env =
  env_now :: nat
  env_todoId :: "nat \<Rightarrow> string"

text \<open>An optional string is truthy when it is present and not empty.\<close>

definition truthy :: "string option \<Rightarrow> bool" where
  "truthy a = (case a of None \<Rightarrow> False | Some s \<Rightarrow> s \<noteq> [])"

text \<open>\<open>a || b\<close> for an optional string \<open>a\<close>.\<close>

definition or_else :: "string option \<Rightarrow> string \<Rightarrow> string" where
  "or_else a b = (case a of None \<Rightarrow> b | Some s \<Rightarrow> if s = [] then b else s)"

text \<open>\<open>n.toString()\<close> for a natural number.\<close>

fun show_nat :: "nat \<Rightarrow> string" where
  "show_nat n =
     (if n < 10 then [char_of (48 + n)] else show_nat (n div 10) @ [char_of (48 + n mod 10)])"

declare show_nat.simps [simp del]

definition normaliseTodos :: "(nat \<Rightarrow> string) \<Rightarrow> ToDoInput option list option \<Rightarrow> ToDoItem list" where
  "normaliseTodos gen todos =
     (case todos of
        None \<Rightarrow> []
      | Some ts \<Rightarrow>
          map (\<lambda>(k, todo).
                 \<lparr>todo_id = or_else (ti_id todo) (gen k),
                  todo_text = (case ti_text todo of None \<Rightarrow> [] | Some t \<Rightarrow> t),
                  todo_completed = (ti_completed todo = Some True)\<rparr>)
              (enumerate 0 (List.map_filter (\<lambda>t. t) ts)))"

text \<open>
  \<open>new Date(value)\<close> parses in a host-dependent way; the parser is the parameter \<open>dp\<close>, with
  \<open>None\<close> for an invalid date.
\<close>

definition parseAssistantDate :: "(string \<Rightarrow> int option) \<Rightarrow> string option \<Rightarrow> int option" where
  "parseAssistantDate dp v =
     (case v of None \<Rightarrow> None | Some s \<Rightarrow> if s = [] then None else dp s)"

definition resolveEventColor :: "AssistantEventInput \<Rightarrow> colorMap \<Rightarrow> string" where
  "resolveEventColor input m =
     (let providedColor = in_color input;
          providedCategory = in_category input;
          fallbackColor = (case Object_values m of [] \<Rightarrow> AVAILABLE_COLORS ! 0 | c # _ \<Rightarrow> c)
      in if truthy providedColor \<and> the providedColor \<in> set (Object_values m) then the providedColor
         else if truthy providedCategory \<and> truthy (map_of m (the providedCategory))
         then the (map_of m (the providedCategory))
         else fallbackColor)"

definition createEvent ::
  "(string \<Rightarrow> int option) \<Rightarrow> colorMap \<Rightarrow> Env \<Rightarrow> AssistantEventInput \<Rightarrow> int \<Rightarrow> Event" where
  "createEvent dp m env eventInput parsedDate =
     \<lparr>ev_id = or_else (in_id eventInput) (show_nat (env_now env)),
      ev_title = or_else (map_option trim (in_title eventInput)) ''Nuovo evento'',
      ev_description = Some (or_else (map_option trim (in_description eventInput)) []),
      ev_date = parsedDate,
      ev_startTime = or_else (in_startTime eventInput) ''09:00'',
      ev_endTime = or_else (in_endTime eventInput) ''10:00'',
      ev_color = resolveEventColor eventInput m,
      ev_todos = normaliseTodos (env_todoId env) (in_todos eventInput)\<rparr>"

definition updateEvent ::
  "(string \<Rightarrow> int option) \<Rightarrow> colorMap \<Rightarrow> Env \<Rightarrow> AssistantEventInput \<Rightarrow> Event \<Rightarrow> Event" where
  "updateEvent dp m env eventInput event =
     (let parsedDate = (if truthy (in_date eventInput) then parseAssistantDate dp (in_date eventInput)
                        else None);
          shouldUpdateColor = (truthy (in_color eventInput) \<or> truthy (in_category eventInput))
      in event
         \<lparr>ev_title := or_else (map_option trim (in_title eventInput)) (ev_title event),
          ev_description := (case in_description eventInput of
                               None \<Rightarrow> ev_description event
                             | Some d \<Rightarrow> Some (trim d)),
          ev_date := (case parsedDate of None \<Rightarrow> ev_date event | Some d \<Rightarrow> d),
          ev_startTime := or_else (in_startTime eventInput) (ev_startTime event),
          ev_endTime := or_else (in_endTime eventInput) (ev_endTime event),
          ev_color := (if shouldUpdateColor then resolveEventColor eventInput m else ev_color event),
          ev_todos := (case in_todos eventInput of
                         None \<Rightarrow> ev_todos event
                       | Some ts \<Rightarrow> normaliseTodos (env_todoId env) (Some ts))\<rparr>)"

text \<open>One round of the \<open>forEach\<close> over the actions; \<open>None\<close> is an entry that is no object.\<close>

definition applyAction ::
  "(string \<Rightarrow> int option) \<Rightarrow> colorMap \<Rightarrow> Env \<Rightarrow> AssistantAction option \<Rightarrow> Event list \<Rightarrow> Event list" where
  "applyAction dp m env a nextEvents =
     (case a of
        None \<Rightarrow> nextEvents
      | Some action \<Rightarrow>
          (case act_type action of
             Create \<Rightarrow>
               (case act_event action of
                  None \<Rightarrow> nextEvents
                | Some eventInput \<Rightarrow>
                    (case parseAssistantDate dp (in_date eventInput) of
                       None \<Rightarrow> nextEvents
                     | Some parsedDate \<Rightarrow>
                         nextEvents @ [createEvent dp m env eventInput parsedDate]))
           | Update \<Rightarrow>
               (case act_event action of
                  None \<Rightarrow> nextEvents
                | Some eventInput \<Rightarrow>
                    if \<not> truthy (in_id eventInput) then nextEvents
                    else
                      let index = findIndex (\<lambda>event. ev_id event = the (in_id eventInput)) nextEvents
                      in if index = - 1 then nextEvents
                         else map (\<lambda>(eventIndex, event).
                                     if int eventIndex \<noteq> index then event
                                     else updateEvent dp m env eventInput event)
                                  (enumerate 0 nextEvents))
           | Delete \<Rightarrow>
               (case act_event action of
                  None \<Rightarrow> nextEvents
                | Some eventInput \<Rightarrow>
                    if \<not> truthy (in_id eventInput) then nextEvents
                    else filter (\<lambda>event. ev_id event \<noteq> the (in_id eventInput)) nextEvents)))"

text \<open>The batch: each action comes with the environment it is processed in.\<close>

definition applyAssistantActions ::
  "(string \<Rightarrow> int option) \<Rightarrow> colorMap \<Rightarrow> (Env \<times> AssistantAction option) list \<Rightarrow> Event list \<Rightarrow> Event list" where
  "applyAssistantActions dp m actions prevEvents =
     (if length actions = 0 then prevEvents
      else fold (\<lambda>ea nextEvents. applyAction dp m (fst ea) (snd ea) nextEvents) actions prevEvents)"

section \<open>Saving an event (EventModal.handleSave, App.handleSaveEvent)\<close>

text \<open>The data the modal passes to \<open>onSave\<close>; a description of \<open>None\<close> is an absent key.\<close>

record EventData =
  d_id :: "string option"
  d_title :: string
  d_description :: "string option"
  d_date :: int
  d_startTime :: string
  d_endTime :: string
  d_color :: string
  d_todos :: "ToDoItem list"

definition handleSaveEvent :: "nat \<Rightarrow> EventData \<Rightarrow> Event list \<Rightarrow> Event list" where
  "handleSaveEvent now eventData prevEvents =
     (if truthy (d_id eventData) \<and> (\<exists>e \<in> set prevEvents. ev_id e = the (d_id eventData))
      then map (\<lambda>e. if ev_id e = the (d_id eventData)
                     then \<lparr>ev_id = the (d_id eventData), ev_title = d_title eventData,
                           ev_description = (case d_description eventData of
                                               None \<Rightarrow> ev_description e | Some d \<Rightarrow> Some d),
                           ev_date = d_date eventData, ev_startTime = d_startTime eventData,
                           ev_endTime = d_endTime eventData, ev_color = d_color eventData,
                           ev_todos = d_todos eventData\<rparr>
                     else e) prevEvents
      else prevEvents @
           [\<lparr>ev_id = show_nat now, ev_title = d_title eventData,
             ev_description = d_description eventData, ev_date = d_date eventData,
             ev_startTime = d_startTime eventData, ev_endTime = d_endTime eventData,
             ev_color = d_color eventData, ev_todos = d_todos eventData\<rparr>])"

text \<open>The form state of the event modal.\<close>

record EventModalState =
  m_title :: string
  m_description :: string
  m_date :: int
  m_startTime :: string
  m_endTime :: string
  m_color :: string
  m_todos :: "ToDoItem list"
  m_event :: "Event option"

text \<open>
  The two messages of the modal: \<open>TitleRequired\<close> is "Il titolo e' obbligatorio.",
  \<open>EndNotAfterStart\<close> is "L'ora di fine deve essere successiva all'ora di inizio.".
\<close>

datatype EventError = TitleRequired | EndNotAfterStart

text \<open>\<open>Inl\<close>: \<open>setError\<close> and return. \<open>Inr\<close>: the argument of \<open>onSave\<close>.\<close>

definition EventModal_handleSave :: "EventModalState \<Rightarrow> EventError + EventData" where
  "EventModal_handleSave st =
     (if trim (m_title st) = [] then Inl TitleRequired
      else if js_str_ge (m_startTime st) (m_endTime st) then Inl EndNotAfterStart
      else Inr \<lparr>d_id = map_option ev_id (m_event st), d_title = m_title st,
                d_description = Some (m_description st), d_date = m_date st,
                d_startTime = m_startTime st, d_endTime = m_endTime st,
                d_color = m_color st, d_todos = m_todos st\<rparr>)"

text \<open>The save button with \<open>onSave\<close> bound to \<open>handleSaveEvent\<close>: the error shown, and the events.\<close>

definition saveEventFromModal ::
  "nat \<Rightarrow> EventModalState \<Rightarrow> Event list \<Rightarrow> EventError option \<times> Event list" where
  "saveEventFromModal now st prevEvents =
     (case EventModal_handleSave st of
        Inl err \<Rightarrow> (Some err, prevEvents)
      | Inr eventData \<Rightarrow> (None, handleSaveEvent now eventData prevEvents))"

section \<open>Saving the categories (CategoryManagerModal.handleSave, App.handleSaveCategories)\<close>

record CategoryDefinition =
  cat_name :: string
  cat_color :: string

text \<open>
  \<open>NoCategories\<close> is "Aggiungi almeno una categoria.", \<open>DuplicateName\<close> is "I nomi delle
  categorie devono essere unici.", \<open>DuplicateColor\<close> is "Ogni categoria deve avere un
  colore diverso.".
\<close>

datatype CategoryError = NoCategories | DuplicateName | DuplicateColor

text \<open>The loop over a \<open>Set\<close> of the values seen so far: true when a value comes again.\<close>

fun seenBefore :: "string list \<Rightarrow> string list \<Rightarrow> bool" where
  "seenBefore seen [] = False"
| "seenBefore seen (x # xs) = (if x \<in> set seen then True else seenBefore (x # seen) xs)"

definition trimmedCategories :: "CategoryDefinition list \<Rightarrow> CategoryDefinition list" where
  "trimmedCategories localCategories =
     filter (\<lambda>category. cat_name category \<noteq> [])
       (map (\<lambda>category. category\<lparr>cat_name := trim (cat_name category)\<rparr>) localCategories)"

definition CategoryManagerModal_handleSave ::
  "CategoryDefinition list \<Rightarrow> CategoryError + CategoryDefinition list" where
  "CategoryManagerModal_handleSave localCategories =
     (let trimmed = trimmedCategories localCategories
      in if length trimmed = 0 then Inl NoCategories
         else if seenBefore [] (map (\<lambda>category. toLowerCase (cat_name category)) trimmed)
         then Inl DuplicateName
         else if seenBefore [] (map cat_color trimmed) then Inl DuplicateColor
         else Inr trimmed)"

text \<open>The part of the application state that saving categories touches.\<close>

record AppState =
  events :: "Event list"
  colorMap :: colorMap
  activeFilter :: "string option"

definition handleSaveCategories :: "CategoryDefinition list \<Rightarrow> AppState \<Rightarrow> AppState" where
  "handleSaveCategories categories st =
     (if length categories = 0 then st
      else
        let nextMap = fold (\<lambda>category acc. obj_set acc (cat_name category) (cat_color category))
                        categories [];
            allowedColors = set (map cat_color categories);
            fallbackColor = (case categories of [] \<Rightarrow> AVAILABLE_COLORS ! 0 | c # _ \<Rightarrow> cat_color c)
        in \<lparr>events = map (\<lambda>event. if ev_color event \<in> allowedColors then event
                                   else event\<lparr>ev_color := fallbackColor\<rparr>) (events st),
            colorMap = nextMap,
            activeFilter = (if truthy (activeFilter st) \<and> the (activeFilter st) \<notin> allowedColors
                            then None else activeFilter st)\<rparr>)"

text \<open>The save button of the category modal with \<open>onSave\<close> bound to \<open>handleSaveCategories\<close>.\<close>

definition saveCategoriesFromModal ::
  "CategoryDefinition list \<Rightarrow> AppState \<Rightarrow> CategoryError option \<times> AppState" where
  "saveCategoriesFromModal localCategories st =
     (case CategoryManagerModal_handleSave localCategories of
        Inl err \<Rightarrow> (Some err, st)
      | Inr categories \<Rightarrow> (None, handleSaveCategories categories st))"

section \<open>Example inputs\<close>

text \<open>A collation that compares two strings by their code units.\<close>

definition codeUnitCompare :: "string \<Rightarrow> string \<Rightarrow> int" where
  "codeUnitCompare a b = (if js_str_lt a b then - 1 else if js_str_lt b a then 1 else 0)"

definition exampleEvent :: "string \<Rightarrow> string \<Rightarrow> string \<Rightarrow> Event" where
  "exampleEvent i s e =
     \<lparr>ev_id = i, ev_title = ''Riunione'', ev_description = None, ev_date = 1714521600000,
      ev_startTime = s, ev_endTime = e, ev_color = ''blue'', ev_todos = []\<rparr>"

text \<open>Scenario A of the specification: two overlapping events and one alone.\<close>

definition scenarioA :: "Event list" where
  "scenarioA = [exampleEvent ''a'' ''09:00'' ''10:00'', exampleEvent ''b'' ''09:30'' ''10:30'',
                exampleEvent ''c'' ''11:00'' ''12:00'']"


text \<open>An event whose end is before its start.\<close>

definition invertedEvent :: Event where
  "invertedEvent = exampleEvent ''x'' ''10:00'' ''09:00''"

text \<open>Two different events with the same id and the same times.\<close>

definition sameIdDay :: "Event list" where
  "sameIdDay = [exampleEvent ''a'' ''09:00'' ''10:00'',
                (exampleEvent ''a'' ''09:00'' ''10:00'')\<lparr>ev_title := ''Pranzo''\<rparr>]"

text \<open>Two events whose start is minus infinity, the larger id first.\<close>

definition unboundedDay :: "Event list" where
  "unboundedDay = [exampleEvent ''b'' ''-Infinity:00'' ''10:00'',
                   exampleEvent ''a'' ''-Infinity:00'' ''10:00'']"




definition exampleColorMap :: colorMap where
  "exampleColorMap = [(''lavoro'', ''blue''), (''studio'', ''green'')]"

section \<open>The invariants of the repository, as the specification words them\<close>








text \<open>A time of the form HH:mm: two digits, a colon, two digits, the minutes below 60.\<close>

definition isHHmm :: "string \<Rightarrow> bool" where
  "isHHmm s =
     (case s of
        [a, b, sep, c, d] \<Rightarrow>
          is_digit a \<and> is_digit b \<and> sep = CHR '':'' \<and> is_digit c \<and> is_digit d \<and> digit_val c < 6
      | _ \<Rightarrow> False)"

text \<open>A draft with a blank title and an end before its start.\<close>

definition blankDraft :: EventData where
  "blankDraft =
     \<lparr>d_id = None, d_title = ''  '', d_description = Some [], d_date = 1714521600000,
      d_startTime = ''10:00'', d_endTime = ''09:00'', d_color = ''blue'', d_todos = []\<rparr>"

text \<open>The form of the modal for a given title and times.\<close>

definition exampleForm :: "string \<Rightarrow> string \<Rightarrow> string \<Rightarrow> EventModalState" where
  "exampleForm t s e =
     \<lparr>m_title = t, m_description = [], m_date = 1714521600000, m_startTime = s, m_endTime = e,
      m_color = ''blue'', m_todos = [], m_event = None\<rparr>"

section \<open>Properties of the time arithmetic\<close>

lemma digit_not_ws: "is_digit c \<Longrightarrow> \<not> is_ws c"
  by (auto simp: is_digit_def is_ws_def)

lemma digit_neq:
  assumes "is_digit c"
  shows "c \<noteq> CHR ''x''" "c \<noteq> CHR ''X''" "c \<noteq> CHR ''o''" "c \<noteq> CHR ''O''"
    "c \<noteq> CHR ''b''" "c \<noteq> CHR ''B''" "c \<noteq> CHR ''+''" "c \<noteq> CHR ''-''" "c \<noteq> CHR '':''"
  using assms by (auto simp: is_digit_def)

lemma trim_two_digits: "is_digit a \<Longrightarrow> is_digit b \<Longrightarrow> trim [a, b] = [a, b]"
  by (simp add: trim_def digit_not_ws)

lemma js_Number_two_digits:
  assumes "is_digit a" "is_digit b"
  shows "js_Number [a, b] = Fin (of_nat (10 * digit_val a + digit_val b))"
proof -
  have "StrUnsignedDecimalLiteral [a, b] = Fin (of_nat (10 * digit_val a + digit_val b))"
    using assms
    by (simp add: StrUnsignedDecimalLiteral_def ExponentPart_def pow10_def dec_val_def radix_val_def)
  then have "StrDecimalLiteral [a, b] = Fin (of_nat (10 * digit_val a + digit_val b))"
    using digit_neq[OF assms(1)] by (simp add: StrDecimalLiteral_def)
  then show ?thesis
    using digit_neq[OF assms(2)] by (simp add: js_Number_def trim_two_digits[OF assms])
qed

lemma split_on_time:
  assumes "is_digit a" "is_digit b" "is_digit c" "is_digit d"
  shows "split_on (CHR '':'') [a, b, CHR '':'', c, d] = [[a, b], [c, d]]"
  using assms[THEN digit_neq(9)] by simp

lemma timeToMinutes_no_colon: "CHR '':'' \<notin> set s \<Longrightarrow> timeToMinutes s = Fin 0"
  by (simp add: timeToMinutes_def)

lemma timeToMinutes_HHmm:
  assumes "is_digit a" "is_digit b" "is_digit c" "is_digit d"
  shows "timeToMinutes [a, b, CHR '':'', c, d] =
         Fin (of_nat ((10 * digit_val a + digit_val b) * 60 + (10 * digit_val c + digit_val d)))"
  unfolding timeToMinutes_def split_on_time[OF assms]
  by (simp add: js_Number_two_digits assms)

text \<open>
  C9, as the specification states it, fails: a malformed time that contains a colon is not
  mapped to 0. The parts of \<open>ab:cd\<close> are no numeric literals, \<open>Number\<close> gives NaN for both
  and the sum is NaN, which is neither 0 nor an integer.
\<close>

theorem timeToMinutes_malformed_counterexample:
  "timeToMinutes ''ab:cd'' = NaN \<and> timeToMinutes ''ab:cd'' \<noteq> Fin 0"
  by code_simp

text \<open>
  C9, amended: \<open>timeToMinutes\<close> is a total function from strings to JavaScript numbers (it
  has no failing branch; the number may be NaN). It maps \<open>24:00\<close> to 1440, a string of two
  digits, a colon and two digits to hours times 60 plus minutes, and the empty string and
  every string without a colon to 0.
\<close>

theorem timeToMinutes_cases:
  "timeToMinutes ''24:00'' = Fin 1440 \<and>
   (\<forall>a b c d. is_digit a \<and> is_digit b \<and> is_digit c \<and> is_digit d \<longrightarrow>
      timeToMinutes [a, b, CHR '':'', c, d] =
      Fin (of_nat ((10 * digit_val a + digit_val b) * 60 + (10 * digit_val c + digit_val d)))) \<and>
   timeToMinutes [] = Fin 0 \<and>
   (\<forall>s. CHR '':'' \<notin> set s \<longrightarrow> timeToMinutes s = Fin 0)"
proof -
  have "timeToMinutes ''24:00'' = Fin 1440"
    by code_simp
  moreover have "timeToMinutes [] = Fin 0"
    by (simp add: timeToMinutes_def)
  ultimately show ?thesis
    using timeToMinutes_HHmm timeToMinutes_no_colon by blast
qed

theorem timeToMinutes_cases_witness:
  "timeToMinutes ''09:30'' = Fin 570 \<and> timeToMinutes ''0930'' = Fin 0"
proof -
  have digits: "is_digit CHR ''0'' \<and> is_digit CHR ''9'' \<and> is_digit CHR ''3'' \<and> is_digit CHR ''0''"
    by (simp add: is_digit_def)
  have no_colon: "CHR '':'' \<notin> set ''0930''"
    by simp
  from timeToMinutes_cases digits
  have "timeToMinutes [CHR ''0'', CHR ''9'', CHR '':'', CHR ''3'', CHR ''0''] =
        Fin (of_nat ((10 * digit_val CHR ''0'' + digit_val CHR ''9'') * 60 +
                      (10 * digit_val CHR ''3'' + digit_val CHR ''0'')))"
    by blast
  moreover from timeToMinutes_cases no_colon have "timeToMinutes ''0930'' = Fin 0"
    by blast
  ultimately show ?thesis
    by (simp add: digit_val_def)
qed

section \<open>Properties of the overlap layout\<close>

subsection \<open>Order on JavaScript numbers\<close>

lemma js_lt_max_iff: "js_lt (js_max a b) c \<longleftrightarrow> js_lt a c \<and> js_lt b c"
  by (cases a; cases b; cases c; simp add: js_max_def; linarith?)

lemma js_lt_min_iff: "js_lt a (js_min b c) \<longleftrightarrow> js_lt a b \<and> js_lt a c"
  by (cases a; cases b; cases c; simp add: js_min_def; linarith?)

lemma js_lt_trans: "js_lt a b \<Longrightarrow> js_lt b c \<Longrightarrow> js_lt a c"
  by (cases a; cases b; cases c; simp)


lemma isConcurrent_iff:
  "isConcurrent event e \<longleftrightarrow>
     js_lt (timeToMinutes (ev_startTime event)) (timeToMinutes (ev_endTime event)) \<and>
     js_lt (timeToMinutes (ev_startTime event)) (timeToMinutes (ev_endTime e)) \<and>
     js_lt (timeToMinutes (ev_startTime e)) (timeToMinutes (ev_endTime event)) \<and>
     js_lt (timeToMinutes (ev_startTime e)) (timeToMinutes (ev_endTime e))"
  by (auto simp: isConcurrent_def Let_def js_lt_max_iff js_lt_min_iff)

subsection \<open>Sorting and searching\<close>

lemma set_insert_sorted: "set (insert_sorted cmp x ys) = insert x (set ys)"
  by (induction ys) auto

lemma length_insert_sorted: "length (insert_sorted cmp x ys) = Suc (length ys)"
  by (induction ys) auto

lemma distinct_map_insert_sorted:
  "distinct (map f (insert_sorted cmp x ys)) \<longleftrightarrow> f x \<notin> f ` set ys \<and> distinct (map f ys)"
  by (induction ys) (auto simp: set_insert_sorted)

lemma set_js_sort: "set (js_sort cmp xs) = set xs"
  by (induction xs) (auto simp: js_sort_def set_insert_sorted)

lemma length_js_sort: "length (js_sort cmp xs) = length xs"
  by (induction xs) (auto simp: js_sort_def length_insert_sorted)

lemma distinct_map_js_sort: "distinct (map f (js_sort cmp xs)) \<longleftrightarrow> distinct (map f xs)"
proof (induction xs)
  case Nil
  then show ?case by (simp add: js_sort_def)
next
  case (Cons x xs)
  have "js_sort cmp (x # xs) = insert_sorted cmp x (js_sort cmp xs)"
    by (simp add: js_sort_def)
  then show ?case
    using Cons by (simp add: distinct_map_insert_sorted set_js_sort)
qed




lemma findIndex_nth:
  assumes "distinct (map f xs)" "i < length xs"
  shows "findIndex (\<lambda>x. f x = f (xs ! i)) xs = int i"
  using assms
proof (induction xs arbitrary: i)
  case Nil
  then show ?case by simp
next
  case (Cons x xs)
  show ?case
  proof (cases i)
    case 0
    then show ?thesis by simp
  next
    case (Suc j)
    with Cons.prems have j: "j < length xs" and d: "distinct (map f xs)" and
      nx: "f x \<notin> f ` set xs"
      by auto
    from j nx have "f x \<noteq> f (xs ! j)"
      by (metis image_eqI nth_mem)
    moreover from Cons.IH[OF d j] have "findIndex (\<lambda>y. f y = f (xs ! j)) xs = int j" .
    ultimately show ?thesis
      using Suc by (simp add: Let_def)
  qed
qed


lemma concurrentEvents_set:
  "set (concurrentEvents lc dayEvents event) = {e \<in> set dayEvents. isConcurrent event e}"
  by (auto simp: concurrentEvents_def set_js_sort)

lemma concurrentEvents_self:
  assumes "event \<in> set dayEvents"
    and "js_lt (timeToMinutes (ev_startTime event)) (timeToMinutes (ev_endTime event))"
  shows "event \<in> set (concurrentEvents lc dayEvents event)"
  using assms by (simp add: concurrentEvents_set isConcurrent_iff)


text \<open>The descriptor of the event at position \<open>i\<close> of the day is read off the rendered day.\<close>

lemma renderDay_nth:
  assumes "i < length dayEvents"
  shows "renderDay lc hourHeight dayEvents ! i =
         eventStyle hourHeight (dayEvents ! i, layoutOf lc dayEvents (dayEvents ! i))"
  using assms by (simp add: renderDay_def eventsWithLayout_def)

lemma descriptorOf_renderDay:
  assumes "i < length dayEvents"
  shows "descriptorOf lc hourHeight dayEvents (dayEvents ! i) =
         \<lparr>widthFraction = st_width (renderDay lc hourHeight dayEvents ! i) / 100,
          leftOffsetFraction = st_left (renderDay lc hourHeight dayEvents ! i) / 100,
          desc_top = st_top (renderDay lc hourHeight dayEvents ! i),
          desc_height = st_height (renderDay lc hourHeight dayEvents ! i)\<rparr>"
  by (simp add: descriptorOf_def renderDay_nth[OF assms] Let_def)

lemma leftOffsetFraction_descriptorOf:
  "leftOffsetFraction (descriptorOf lc hourHeight dayEvents event) =
   of_int (myIndex lc dayEvents event) / of_nat (numConcurrent lc dayEvents event)"
  by (simp add: descriptorOf_def eventStyle_def layoutOf_def Let_def)

lemma widthFraction_descriptorOf:
  "widthFraction (descriptorOf lc hourHeight dayEvents event) =
   1 / of_nat (numConcurrent lc dayEvents event)"
  by (simp add: descriptorOf_def eventStyle_def layoutOf_def Let_def)

lemma height_descriptorOf:
  "desc_height (descriptorOf lc hourHeight dayEvents event) =
   js_mul (js_div_const
             (js_max (Fin 5) (js_sub (timeToMinutes (ev_endTime event))
                                     (timeToMinutes (ev_startTime event)))) 60)
          (Fin hourHeight)"
  by (simp add: descriptorOf_def eventStyle_def Let_def)

lemma top_descriptorOf:
  "desc_top (descriptorOf lc hourHeight dayEvents event) =
   js_mul (js_div_const (timeToMinutes (ev_startTime event)) 60) (Fin hourHeight)"
  by (simp add: descriptorOf_def eventStyle_def Let_def)



subsection \<open>Horizontal slots\<close>

lemma distinct_ids_concurrentEvents:
  assumes "distinct (map ev_id dayEvents)"
  shows "distinct (map ev_id (concurrentEvents lc dayEvents event))"
  using assms by (simp add: concurrentEvents_def distinct_map_js_sort distinct_map_filter)

lemma myIndex_position:
  assumes "distinct (map ev_id dayEvents)"
    and "i < length (concurrentEvents lc dayEvents event)"
    and "concurrentEvents lc dayEvents event ! i = event"
  shows "myIndex lc dayEvents event = int i"
proof -
  let ?c = "concurrentEvents lc dayEvents event"
  from findIndex_nth[OF distinct_ids_concurrentEvents[OF assms(1)] assms(2)]
  have "findIndex (\<lambda>x. ev_id x = ev_id (?c ! i)) ?c = int i" .
  then show ?thesis
    by (simp add: myIndex_def assms(3))
qed

lemma numConcurrent_length:
  assumes "i < length (concurrentEvents lc dayEvents event)"
  shows "numConcurrent lc dayEvents event = length (concurrentEvents lc dayEvents event)"
  using assms by (auto simp: numConcurrent_def Let_def)




subsection \<open>The layout against the reference descriptor\<close>

lemma isConcurrent_spec_overlap: "isConcurrent e = spec_overlap e"
  by (rule ext) (simp add: isConcurrent_def spec_overlap_def spec_start_def spec_end_def Let_def)

lemma compareEvents_positive_iff:
  assumes "timeToMinutes (ev_startTime a) = Fin s" "timeToMinutes (ev_startTime b) = Fin t"
  shows "js_lt (Fin 0) (compareEvents lc a b) \<longleftrightarrow> \<not> spec_before lc a b"
  using assms
  by (auto simp: compareEvents_def spec_before_def spec_start_def js_sub_def Let_def)

lemma insert_sorted_spec_insert:
  assumes "\<forall>e \<in> set (x # ys). \<exists>s. timeToMinutes (ev_startTime e) = Fin s"
  shows "insert_sorted (compareEvents lc) x ys = spec_insert (spec_before lc) x ys"
  using assms
proof (induction ys)
  case Nil
  then show ?case by simp
next
  case (Cons y ys)
  from Cons.prems obtain s t where
    "timeToMinutes (ev_startTime x) = Fin s" "timeToMinutes (ev_startTime y) = Fin t"
    by auto
  then have c: "js_lt (Fin 0) (compareEvents lc x y) \<longleftrightarrow> \<not> spec_before lc x y"
    by (rule compareEvents_positive_iff)
  from Cons.prems have "\<forall>e \<in> set (x # ys). \<exists>s. timeToMinutes (ev_startTime e) = Fin s"
    by simp
  with Cons.IH have "insert_sorted (compareEvents lc) x ys = spec_insert (spec_before lc) x ys"
    by blast
  with c show ?case
    by simp
qed

lemma js_sort_spec_sort:
  assumes "\<forall>e \<in> set xs. \<exists>s. timeToMinutes (ev_startTime e) = Fin s"
  shows "js_sort (compareEvents lc) xs = foldr (spec_insert (spec_before lc)) xs []"
  using assms
proof (induction xs)
  case Nil
  then show ?case by (simp add: js_sort_def)
next
  case (Cons x xs)
  then have ih: "js_sort (compareEvents lc) xs = foldr (spec_insert (spec_before lc)) xs []"
    by simp
  from Cons.prems have "\<forall>e \<in> set (x # js_sort (compareEvents lc) xs).
      \<exists>s. timeToMinutes (ev_startTime e) = Fin s"
    by (simp add: set_js_sort)
  then have "insert_sorted (compareEvents lc) x (js_sort (compareEvents lc) xs) =
             spec_insert (spec_before lc) x (js_sort (compareEvents lc) xs)"
    by (rule insert_sorted_spec_insert)
  then show ?case
    by (simp add: js_sort_def ih[unfolded js_sort_def])
qed

lemma concurrentEvents_spec_cluster:
  assumes "\<forall>e \<in> set dayEvents. \<exists>s. timeToMinutes (ev_startTime e) = Fin s"
  shows "concurrentEvents lc dayEvents event = spec_cluster lc dayEvents event"
proof -
  from assms have "\<forall>e \<in> set (filter (isConcurrent event) dayEvents).
      \<exists>s. timeToMinutes (ev_startTime e) = Fin s"
    by simp
  from js_sort_spec_sort[OF this] show ?thesis
    by (simp add: concurrentEvents_def spec_cluster_def isConcurrent_spec_overlap)
qed

lemma spec_position_nth:
  assumes "distinct xs" "i < length xs"
  shows "spec_position (xs ! i) xs = Some i"
  using assms
proof (induction xs arbitrary: i)
  case Nil
  then show ?case by simp
next
  case (Cons x xs)
  show ?case
  proof (cases i)
    case 0
    then show ?thesis by simp
  next
    case (Suc j)
    with Cons.prems have "j < length xs" "distinct xs" "x \<notin> set xs"
      by auto
    moreover from this have "xs ! j \<noteq> x"
      by (metis nth_mem)
    ultimately show ?thesis
      using Suc Cons.IH[of j] by simp
  qed
qed

text \<open>
  C3, as the specification states it, fails on three kinds of day. An event whose end is
  before its start is not in its own cluster: the reference has no position for it, and
  the code gives it the full width at offset \<open>-1\<close>. Of two different events with the same
  id the second is at position 1 of the sorted cluster but gets offset 0, because the
  position is looked up by id. Two events that both start at minus infinity keep their
  input order, because the difference of their starts is NaN and the ids are not compared.
\<close>

theorem reference_descriptor_counterexample:
  "spec_descriptor codeUnitCompare 7 [invertedEvent] invertedEvent = None \<and>
   widthFraction (descriptorOf codeUnitCompare 7 [invertedEvent] invertedEvent) = 1 \<and>
   leftOffsetFraction (descriptorOf codeUnitCompare 7 [invertedEvent] invertedEvent) = - 1 \<and>
   map_option leftOffsetFraction (spec_descriptor codeUnitCompare 7 sameIdDay (sameIdDay ! 1)) = Some (1 / 2) \<and>
   leftOffsetFraction (descriptorOf codeUnitCompare 7 sameIdDay (sameIdDay ! 1)) = 0 \<and>
   map_option leftOffsetFraction (spec_descriptor codeUnitCompare 7 unboundedDay (unboundedDay ! 0)) = Some (1 / 2) \<and>
   leftOffsetFraction (descriptorOf codeUnitCompare 7 unboundedDay (unboundedDay ! 0)) = 0"
proof -
  have a: "spec_descriptor codeUnitCompare 7 [invertedEvent] invertedEvent = None"
    by code_simp
  have b: "descriptorOf codeUnitCompare 7 [invertedEvent] invertedEvent =
     \<lparr>widthFraction = 1, leftOffsetFraction = - 1, desc_top = Fin 70, desc_height = Fin (7 / 12)\<rparr>"
    by code_simp
  have c: "map_option leftOffsetFraction (spec_descriptor codeUnitCompare 7 sameIdDay (sameIdDay ! 1)) = Some (1 / 2)"
    by code_simp
  have d: "leftOffsetFraction (descriptorOf codeUnitCompare 7 sameIdDay (sameIdDay ! 1)) = 0"
    by code_simp
  have e: "map_option leftOffsetFraction (spec_descriptor codeUnitCompare 7 unboundedDay (unboundedDay ! 0)) = Some (1 / 2)"
    by code_simp
  have f: "leftOffsetFraction (descriptorOf codeUnitCompare 7 unboundedDay (unboundedDay ! 0)) = 0"
    by code_simp
  show ?thesis
    unfolding a b c d e f by simp
qed

text \<open>
  C3, amended: for every same-day event list whose ids are pairwise distinct and whose
  start minutes are finite numbers, and every hour height, each event of the list with
  start before end gets exactly the reference descriptor. Its cluster is the list of the
  events \<open>o\<close> of the day with \<open>max(start(e), start(o)) < min(end(e), end(o))\<close>, sorted by
  start and then id; the event is in it at a position \<open>k\<close> below the size \<open>n\<close>; its width
  fraction is \<open>1/n\<close>, its left offset fraction \<open>k/n\<close>, its top \<open>start/60 * hourHeight\<close> and
  its height \<open>max(5, end - start)/60 * hourHeight\<close>.
\<close>

theorem layout_matches_reference:
  assumes "distinct (map ev_id dayEvents)"
    and "\<forall>e' \<in> set dayEvents. \<exists>s. timeToMinutes (ev_startTime e') = Fin s"
    and "e \<in> set dayEvents"
    and "js_lt (timeToMinutes (ev_startTime e)) (timeToMinutes (ev_endTime e))"
  shows "concurrentEvents lc dayEvents e = spec_cluster lc dayEvents e \<and>
         spec_descriptor lc hourHeight dayEvents e = Some (descriptorOf lc hourHeight dayEvents e) \<and>
         (\<exists>k < length (spec_cluster lc dayEvents e).
            spec_cluster lc dayEvents e ! k = e \<and>
            widthFraction (descriptorOf lc hourHeight dayEvents e) =
              1 / of_nat (length (spec_cluster lc dayEvents e)) \<and>
            leftOffsetFraction (descriptorOf lc hourHeight dayEvents e) =
              of_nat k / of_nat (length (spec_cluster lc dayEvents e))) \<and>
         desc_top (descriptorOf lc hourHeight dayEvents e) =
           js_mul (js_div_const (timeToMinutes (ev_startTime e)) 60) (Fin hourHeight) \<and>
         desc_height (descriptorOf lc hourHeight dayEvents e) =
           js_mul (js_div_const
                     (js_max (Fin 5) (js_sub (timeToMinutes (ev_endTime e))
                                             (timeToMinutes (ev_startTime e)))) 60)
                  (Fin hourHeight)"
proof -
  let ?c = "concurrentEvents lc dayEvents e"
  have ceq: "?c = spec_cluster lc dayEvents e"
    by (rule concurrentEvents_spec_cluster[OF assms(2)])
  have mem: "e \<in> set ?c"
    by (rule concurrentEvents_self[OF assms(3,4)])
  then obtain k where k: "k < length ?c" "?c ! k = e"
    by (auto simp: in_set_conv_nth)
  have dist_ids: "distinct (map ev_id ?c)"
    by (rule distinct_ids_concurrentEvents[OF assms(1)])
  then have dist: "distinct ?c"
    by (simp add: distinct_map)
  have idx: "myIndex lc dayEvents e = int k"
    by (rule myIndex_position[OF assms(1) k])
  have n: "numConcurrent lc dayEvents e = length ?c"
    by (rule numConcurrent_length[OF k(1)])
  from spec_position_nth[OF dist k(1)] k(2) have pos: "spec_position e ?c = Some k"
    by simp
  have w: "widthFraction (descriptorOf lc hourHeight dayEvents e) = 1 / of_nat (length ?c)"
    by (simp add: widthFraction_descriptorOf n)
  have l: "leftOffsetFraction (descriptorOf lc hourHeight dayEvents e) = of_nat k / of_nat (length ?c)"
    by (simp add: leftOffsetFraction_descriptorOf n idx)
  have "spec_descriptor lc hourHeight dayEvents e = Some (descriptorOf lc hourHeight dayEvents e)"
    using pos w l
    by (simp add: spec_descriptor_def ceq[symmetric] Let_def spec_start_def spec_end_def
        top_descriptorOf height_descriptorOf Descriptor.equality)
  with ceq k w l show ?thesis
    by (auto simp: top_descriptorOf height_descriptorOf)
qed

theorem layout_matches_reference_witness:
  "spec_descriptor codeUnitCompare 7 scenarioA (exampleEvent ''b'' ''09:30'' ''10:30'') =
     Some (descriptorOf codeUnitCompare 7 scenarioA (exampleEvent ''b'' ''09:30'' ''10:30''))"
proof -
  let ?b = "exampleEvent ''b'' ''09:30'' ''10:30''"
  have d: "distinct (map ev_id scenarioA)"
    by code_simp
  have f: "\<forall>e' \<in> set scenarioA. \<exists>s. timeToMinutes (ev_startTime e') = Fin s"
  proof -
    have "timeToMinutes ''09:00'' = Fin 540" "timeToMinutes ''09:30'' = Fin 570"
      "timeToMinutes ''11:00'' = Fin 660"
      by code_simp+
    then show ?thesis
      by (simp add: scenarioA_def exampleEvent_def)
  qed
  have m: "?b \<in> set scenarioA"
    by code_simp
  have v: "js_lt (timeToMinutes (ev_startTime ?b)) (timeToMinutes (ev_endTime ?b))"
    by code_simp
  from layout_matches_reference[OF d f m v, of codeUnitCompare 7] show ?thesis
    by blast
qed

subsection \<open>The sorted cluster\<close>

lemma set_spec_insert: "set (spec_insert le x ys) = insert x (set ys)"
  by (induction ys) auto

lemma sorted_wrt_spec_insert:
  assumes total: "\<And>a b. a \<in> S \<Longrightarrow> b \<in> S \<Longrightarrow> le a b \<or> le b a"
    and trans: "\<And>a b c. a \<in> S \<Longrightarrow> b \<in> S \<Longrightarrow> c \<in> S \<Longrightarrow> le a b \<Longrightarrow> le b c \<Longrightarrow> le a c"
    and "x \<in> S" "set ys \<subseteq> S" "sorted_wrt le ys"
  shows "sorted_wrt le (spec_insert le x ys)"
  using assms(3-)
proof (induction ys)
  case Nil
  then show ?case by simp
next
  case (Cons y ys)
  show ?case
  proof (cases "le x y")
    case True
    have "le x z" if "z \<in> set ys" for z
    proof -
      from that Cons.prems have "le y z" "z \<in> S" "y \<in> S"
        by auto
      with True Cons.prems(1) show ?thesis
        using trans by blast
    qed
    with True Cons.prems show ?thesis
      by auto
  next
    case False
    with total[of x y] Cons.prems have "le y x"
      by auto
    moreover from Cons have "sorted_wrt le (spec_insert le x ys)"
      by simp
    ultimately show ?thesis
      using False Cons.prems by (auto simp: set_spec_insert)
  qed
qed

lemma sorted_wrt_spec_sort:
  assumes total: "\<And>a b. a \<in> S \<Longrightarrow> b \<in> S \<Longrightarrow> le a b \<or> le b a"
    and trans: "\<And>a b c. a \<in> S \<Longrightarrow> b \<in> S \<Longrightarrow> c \<in> S \<Longrightarrow> le a b \<Longrightarrow> le b c \<Longrightarrow> le a c"
    and "set xs \<subseteq> S"
  shows "sorted_wrt le (foldr (spec_insert le) xs []) \<and> set (foldr (spec_insert le) xs []) = set xs"
  using assms(3)
proof (induction xs)
  case Nil
  then show ?case by simp
next
  case (Cons x xs)
  then have ih: "sorted_wrt le (foldr (spec_insert le) xs [])"
    "set (foldr (spec_insert le) xs []) = set xs"
    by auto
  from Cons.prems ih(2) have "x \<in> S" "set (foldr (spec_insert le) xs []) \<subseteq> S"
    by auto
  from sorted_wrt_spec_insert[of S le, OF total trans this ih(1)] ih(2)
  show ?case
    by (simp add: set_spec_insert)
qed

text \<open>
  A comparison of ids is consistent when it is total and transitive, as a collation is.
  Then the cluster of an event is the sorted list of the events that overlap it: the
  start ascending, the id ascending among equal starts.
\<close>

lemma concurrentEvents_sorted:
  assumes fin: "\<forall>e' \<in> set dayEvents. \<exists>s. timeToMinutes (ev_startTime e') = Fin s"
    and total: "\<And>a b. lc a b \<le> 0 \<or> lc b a \<le> 0"
    and trans: "\<And>a b c. lc a b \<le> 0 \<Longrightarrow> lc b c \<le> 0 \<Longrightarrow> lc a c \<le> 0"
  shows "sorted_wrt (spec_before lc) (concurrentEvents lc dayEvents event)"
proof -
  let ?S = "{e. \<exists>s. timeToMinutes (ev_startTime e) = Fin s}"
  have t: "spec_before lc a b \<or> spec_before lc b a" if "a \<in> ?S" "b \<in> ?S" for a b
    using that total[of "ev_id a" "ev_id b"]
    by (auto simp: spec_before_def spec_start_def)
  have tr: "spec_before lc a c"
    if "a \<in> ?S" "b \<in> ?S" "c \<in> ?S" "spec_before lc a b" "spec_before lc b c" for a b c
    using that trans[of "ev_id a" "ev_id b" "ev_id c"]
    by (auto simp: spec_before_def spec_start_def)
  from fin have sub: "set (filter (spec_overlap event) dayEvents) \<subseteq> ?S"
    by auto
  from sorted_wrt_spec_sort[of ?S "spec_before lc", OF t tr sub]
  have "sorted_wrt (spec_before lc) (spec_cluster lc dayEvents event)"
    by (simp add: spec_cluster_def)
  then show ?thesis
    by (simp add: concurrentEvents_spec_cluster[OF fin])
qed

lemma js_str_lt_irrefl: "\<not> js_str_lt a a"
  by (induction a) auto

lemma js_str_lt_trans: "js_str_lt a b \<Longrightarrow> js_str_lt b c \<Longrightarrow> js_str_lt a c"
proof (induction a b arbitrary: c rule: js_str_lt.induct)
  case 1
  then show ?case by simp
next
  case (2 y ys)
  then show ?case by (cases c) (auto split: if_splits)
next
  case (3 x xs)
  then show ?case by simp
next
  case (4 x xs y ys)
  then show ?case
    by (cases c) (auto split: if_splits)
qed

lemma js_str_lt_total: "js_str_lt a b \<or> a = b \<or> js_str_lt b a"
proof (induction a b rule: js_str_lt.induct)
  case (4 x xs y ys)
  then show ?case
    by (auto simp: of_char_eq_iff)
qed auto

text \<open>The comparison by code units is consistent.\<close>

lemma codeUnitCompare_consistent:
  "codeUnitCompare a b \<le> 0 \<or> codeUnitCompare b a \<le> 0"
  "codeUnitCompare a b \<le> 0 \<Longrightarrow> codeUnitCompare b c \<le> 0 \<Longrightarrow> codeUnitCompare a c \<le> 0"
proof -
  have le: "codeUnitCompare x y \<le> 0 \<longleftrightarrow> \<not> js_str_lt y x" for x y
    using js_str_lt_trans[of x y x] js_str_lt_irrefl[of x]
    by (auto simp: codeUnitCompare_def)
  show "codeUnitCompare a b \<le> 0 \<or> codeUnitCompare b a \<le> 0"
    unfolding le using js_str_lt_trans[of a b a] js_str_lt_irrefl[of a] by blast
  show "codeUnitCompare a c \<le> 0" if "codeUnitCompare a b \<le> 0" "codeUnitCompare b c \<le> 0"
    using that unfolding le
    using js_str_lt_total[of a b] js_str_lt_total[of b c] js_str_lt_trans by blast
qed

section \<open>Properties of the assistant actions\<close>

lemma truthy_Some [simp]: "truthy (Some s) \<longleftrightarrow> s \<noteq> []"
  by (simp add: truthy_def)

lemma truthy_None [simp]: "\<not> truthy None"
  by (simp add: truthy_def)

lemma or_else_None [simp]: "or_else None b = b"
  by (simp add: or_else_def)

lemma or_else_Some [simp]: "or_else (Some s) b = (if s = [] then b else s)"
  by (simp add: or_else_def)





text \<open>A batch is processed one action after the other, each on the events the earlier left.\<close>

lemma applyAssistantActions_Cons:
  "applyAssistantActions dp m ((env, a) # actions) evs =
   applyAssistantActions dp m actions (applyAssistantActions dp m [(env, a)] evs)"
  by (simp add: applyAssistantActions_def)




lemma ev_id_updateEvent [simp]: "ev_id (updateEvent dp m env input event) = ev_id event"
  by (simp add: updateEvent_def Let_def)






subsection \<open>What a batch preserves\<close>










section \<open>Properties of saving the categories\<close>

lemma seenBefore_iff: "seenBefore seen xs \<longleftrightarrow> \<not> distinct xs \<or> (\<exists>x \<in> set xs. x \<in> set seen)"
  by (induction xs arbitrary: seen) auto

lemma seenBefore_Nil: "seenBefore [] xs \<longleftrightarrow> \<not> distinct xs"
  by (simp add: seenBefore_iff)

text \<open>
  C6: saving the categories is rejected, with an error and without any change of the
  category map, the events or the filter, whenever, among the definitions that are left
  after trimming the names and dropping the blank ones, there is none, or two have the
  same name up to case, or two have the same colour. Scenario B is rejected for its
  duplicate colour.
\<close>

theorem setCategories_rejected:
  "(trimmedCategories localCategories = [] \<longrightarrow>
      saveCategoriesFromModal localCategories st = (Some NoCategories, st)) \<and>
   (trimmedCategories localCategories \<noteq> [] \<and>
    \<not> distinct (map (\<lambda>category. toLowerCase (cat_name category)) (trimmedCategories localCategories)) \<longrightarrow>
      saveCategoriesFromModal localCategories st = (Some DuplicateName, st)) \<and>
   (trimmedCategories localCategories \<noteq> [] \<and>
    distinct (map (\<lambda>category. toLowerCase (cat_name category)) (trimmedCategories localCategories)) \<and>
    \<not> distinct (map cat_color (trimmedCategories localCategories)) \<longrightarrow>
      saveCategoriesFromModal localCategories st = (Some DuplicateColor, st)) \<and>
   (trimmedCategories localCategories = [] \<or>
    \<not> distinct (map (\<lambda>category. toLowerCase (cat_name category)) (trimmedCategories localCategories)) \<or>
    \<not> distinct (map cat_color (trimmedCategories localCategories)) \<longrightarrow>
      (\<exists>err. saveCategoriesFromModal localCategories st = (Some err, st)) \<and>
      colorMap (snd (saveCategoriesFromModal localCategories st)) = colorMap st \<and>
      events (snd (saveCategoriesFromModal localCategories st)) = events st) \<and>
   saveCategoriesFromModal
     [\<lparr>cat_name = ''lavoro'', cat_color = ''blue''\<rparr>, \<lparr>cat_name = ''studio'', cat_color = ''blue''\<rparr>] st
     = (Some DuplicateColor, st)"
proof -
  have scenario: "saveCategoriesFromModal
     [\<lparr>cat_name = ''lavoro'', cat_color = ''blue''\<rparr>, \<lparr>cat_name = ''studio'', cat_color = ''blue''\<rparr>] st
     = (Some DuplicateColor, st)"
  proof -
    have "CategoryManagerModal_handleSave
        [\<lparr>cat_name = ''lavoro'', cat_color = ''blue''\<rparr>, \<lparr>cat_name = ''studio'', cat_color = ''blue''\<rparr>]
        = Inl DuplicateColor"
      by code_simp
    then show ?thesis
      by (simp add: saveCategoriesFromModal_def)
  qed
  show ?thesis
    using scenario
    by (auto simp: saveCategoriesFromModal_def CategoryManagerModal_handleSave_def Let_def
        seenBefore_Nil)
qed

theorem setCategories_rejected_witness:
  "saveCategoriesFromModal
     [\<lparr>cat_name = ''Lavoro'', cat_color = ''blue''\<rparr>, \<lparr>cat_name = '' lavoro '', cat_color = ''red''\<rparr>]
     \<lparr>events = scenarioA, colorMap = exampleColorMap, activeFilter = None\<rparr>
   = (Some DuplicateName, \<lparr>events = scenarioA, colorMap = exampleColorMap, activeFilter = None\<rparr>) \<and>
   saveCategoriesFromModal [\<lparr>cat_name = ''  '', cat_color = ''blue''\<rparr>]
     \<lparr>events = scenarioA, colorMap = exampleColorMap, activeFilter = None\<rparr>
   = (Some NoCategories, \<lparr>events = scenarioA, colorMap = exampleColorMap, activeFilter = None\<rparr>)"
proof -
  let ?st = "\<lparr>events = scenarioA, colorMap = exampleColorMap, activeFilter = None\<rparr>"
  let ?l1 = "[\<lparr>cat_name = ''Lavoro'', cat_color = ''blue''\<rparr>, \<lparr>cat_name = '' lavoro '', cat_color = ''red''\<rparr>]"
  let ?l2 = "[\<lparr>cat_name = ''  '', cat_color = ''blue''\<rparr>]"
  have h1: "trimmedCategories ?l1 \<noteq> [] \<and>
    \<not> distinct (map (\<lambda>category. toLowerCase (cat_name category)) (trimmedCategories ?l1))"
    by code_simp
  have h2: "trimmedCategories ?l2 = []"
    by code_simp
  from setCategories_rejected[of ?l1 ?st] h1
  have "saveCategoriesFromModal ?l1 ?st = (Some DuplicateName, ?st)"
    by blast
  moreover from setCategories_rejected[of ?l2 ?st] h2
  have "saveCategoriesFromModal ?l2 ?st = (Some NoCategories, ?st)"
    by blast
  ultimately show ?thesis
    by blast
qed

lemma modal_save_nonempty:
  assumes "CategoryManagerModal_handleSave localCategories = Inr categories"
  shows "categories = trimmedCategories localCategories \<and> categories \<noteq> [] \<and>
         distinct (map (\<lambda>category. toLowerCase (cat_name category)) categories) \<and>
         distinct (map cat_color categories)"
  using assms
  by (auto simp: CategoryManagerModal_handleSave_def Let_def seenBefore_Nil split: if_splits)

text \<open>
  C7: when the save of the categories succeeds with the list \<open>C\<close>, the new state is that of
  \<open>handleSaveCategories\<close> on \<open>C\<close>, computed in the same step: every event whose colour is
  among the colours of \<open>C\<close> is unchanged, every other event gets the fallback colour (the
  colour of the first category, or the first palette entry for an empty list) and is
  otherwise unchanged, and an active filter whose colour is not among the colours of \<open>C\<close>
  is cleared, while any other filter stays.
\<close>

theorem setCategories_repairs:
  assumes "CategoryManagerModal_handleSave localCategories = Inr C"
  shows "saveCategoriesFromModal localCategories st = (None, handleSaveCategories C st) \<and>
         length (events (handleSaveCategories C st)) = length (events st) \<and>
         (\<forall>i < length (events st).
            (ev_color (events st ! i) \<in> cat_color ` set C \<longrightarrow>
               events (handleSaveCategories C st) ! i = events st ! i) \<and>
            (ev_color (events st ! i) \<notin> cat_color ` set C \<longrightarrow>
               events (handleSaveCategories C st) ! i =
               (events st ! i)\<lparr>ev_color := (case C of [] \<Rightarrow> AVAILABLE_COLORS ! 0
                                              | c # _ \<Rightarrow> cat_color c)\<rparr>)) \<and>
         (\<forall>f. activeFilter st = Some f \<and> f \<noteq> [] \<and> f \<notin> cat_color ` set C \<longrightarrow>
            activeFilter (handleSaveCategories C st) = None) \<and>
         (\<forall>f. activeFilter st = Some f \<and> f \<in> cat_color ` set C \<longrightarrow>
            activeFilter (handleSaveCategories C st) = Some f) \<and>
         (activeFilter st = None \<longrightarrow> activeFilter (handleSaveCategories C st) = None)"
proof -
  from modal_save_nonempty[OF assms] have ne: "C \<noteq> []"
    by blast
  have s: "saveCategoriesFromModal localCategories st = (None, handleSaveCategories C st)"
    by (simp add: saveCategoriesFromModal_def assms)
  from ne have ev: "events (handleSaveCategories C st) =
      map (\<lambda>event. if ev_color event \<in> cat_color ` set C then event
                    else event\<lparr>ev_color := (case C of [] \<Rightarrow> AVAILABLE_COLORS ! 0
                                              | c # _ \<Rightarrow> cat_color c)\<rparr>) (events st)"
    by (simp add: handleSaveCategories_def Let_def)
  from ne have af: "activeFilter (handleSaveCategories C st) =
      (if truthy (activeFilter st) \<and> the (activeFilter st) \<notin> cat_color ` set C then None
       else activeFilter st)"
    by (simp add: handleSaveCategories_def Let_def)
  show ?thesis
    unfolding s ev af by auto
qed

theorem setCategories_repairs_witness:
  "saveCategoriesFromModal [\<lparr>cat_name = ''studio'', cat_color = ''green''\<rparr>]
     \<lparr>events = [exampleEvent ''a'' ''09:00'' ''10:00''], colorMap = exampleColorMap,
      activeFilter = Some ''blue''\<rparr>
   = (None, handleSaveCategories [\<lparr>cat_name = ''studio'', cat_color = ''green''\<rparr>]
       \<lparr>events = [exampleEvent ''a'' ''09:00'' ''10:00''], colorMap = exampleColorMap,
        activeFilter = Some ''blue''\<rparr>) \<and>
   events (handleSaveCategories [\<lparr>cat_name = ''studio'', cat_color = ''green''\<rparr>]
       \<lparr>events = [exampleEvent ''a'' ''09:00'' ''10:00''], colorMap = exampleColorMap,
        activeFilter = Some ''blue''\<rparr>) ! 0
     = (exampleEvent ''a'' ''09:00'' ''10:00'')\<lparr>ev_color := ''green''\<rparr> \<and>
   activeFilter (handleSaveCategories [\<lparr>cat_name = ''studio'', cat_color = ''green''\<rparr>]
       \<lparr>events = [exampleEvent ''a'' ''09:00'' ''10:00''], colorMap = exampleColorMap,
        activeFilter = Some ''blue''\<rparr>) = None"
proof -
  let ?C = "[\<lparr>cat_name = ''studio'', cat_color = ''green''\<rparr>]"
  let ?st = "\<lparr>events = [exampleEvent ''a'' ''09:00'' ''10:00''], colorMap = exampleColorMap,
      activeFilter = Some ''blue''\<rparr>"
  have ok: "CategoryManagerModal_handleSave ?C = Inr ?C"
    by code_simp
  have h1: "0 < length (events ?st) \<and> ev_color (events ?st ! 0) \<notin> cat_color ` set ?C"
    by (simp add: exampleEvent_def)
  have h2: "activeFilter ?st = Some ''blue'' \<and> ''blue'' \<noteq> [] \<and> ''blue'' \<notin> cat_color ` set ?C"
    by simp
  note r = setCategories_repairs[OF ok, of ?st]
  from r have "saveCategoriesFromModal ?C ?st = (None, handleSaveCategories ?C ?st)"
    by blast
  moreover from r h1 have "events (handleSaveCategories ?C ?st) ! 0 =
      (events ?st ! 0)\<lparr>ev_color := (case ?C of [] \<Rightarrow> AVAILABLE_COLORS ! 0 | c # _ \<Rightarrow> cat_color c)\<rparr>"
    by blast
  moreover from r h2 have "activeFilter (handleSaveCategories ?C ?st) = None"
    by blast
  ultimately show ?thesis
    by simp
qed

section \<open>Properties of saving an event\<close>

lemma of_char_digit: "is_digit c \<Longrightarrow> of_char c = 48 + digit_val c"
  by (simp add: is_digit_def digit_val_def)

lemma digit_val_le_9: "is_digit c \<Longrightarrow> digit_val c \<le> 9"
  by (auto simp: is_digit_def digit_val_def)

lemma lex_minutes:
  fixes A B C D A' B' C' D' :: nat
  assumes "B \<le> 9" "B' \<le> 9" "D \<le> 9" "D' \<le> 9" "C < 6" "C' < 6"
  shows "(A < A' \<or> (A = A' \<and> (B < B' \<or> (B = B' \<and> (C < C' \<or> (C = C' \<and> D < D')))))) \<longleftrightarrow>
         (10 * A + B) * 60 + (10 * C + D) < (10 * A' + B') * 60 + (10 * C' + D')"
proof (cases A A' rule: linorder_cases)
  case less
  with assms show ?thesis by simp
next
  case greater
  with assms show ?thesis by simp
next
  case equal
  show ?thesis
  proof (cases B B' rule: linorder_cases)
    case less
    with equal assms show ?thesis by simp
  next
    case greater
    with equal assms show ?thesis by simp
  next
    case eqB: equal
    show ?thesis
    proof (cases C C' rule: linorder_cases)
      case less
      with equal eqB assms show ?thesis by simp
    next
      case greater
      with equal eqB assms show ?thesis by simp
    next
      case eqC: equal
      with equal eqB show ?thesis by simp
    qed
  qed
qed

lemma isHHmm_D:
  assumes "isHHmm s"
  obtains a b c d where "s = [a, b, CHR '':'', c, d]" "is_digit a" "is_digit b" "is_digit c"
    "is_digit d" "digit_val c < 6"
  using assms
  by (auto simp: isHHmm_def split: list.splits)

lemma js_str_lt_HHmm:
  assumes "isHHmm s" "isHHmm e"
  shows "js_str_lt s e \<longleftrightarrow> js_lt (timeToMinutes s) (timeToMinutes e)"
proof -
  from assms(1) obtain a b c d where s: "s = [a, b, CHR '':'', c, d]"
    and ds: "is_digit a" "is_digit b" "is_digit c" "is_digit d" and c6: "digit_val c < 6"
    by (rule isHHmm_D)
  from assms(2) obtain a' b' c' d' where e: "e = [a', b', CHR '':'', c', d']"
    and de: "is_digit a'" "is_digit b'" "is_digit c'" "is_digit d'" and c6': "digit_val c' < 6"
    by (rule isHHmm_D)
  let ?A = "digit_val a" and ?B = "digit_val b" and ?C = "digit_val c" and ?D = "digit_val d"
  let ?A' = "digit_val a'" and ?B' = "digit_val b'" and ?C' = "digit_val c'" and ?D' = "digit_val d'"
  have lex: "js_str_lt s e \<longleftrightarrow>
      ?A < ?A' \<or> (?A = ?A' \<and> (?B < ?B' \<or> (?B = ?B' \<and> (?C < ?C' \<or> (?C = ?C' \<and> ?D < ?D')))))"
    unfolding s e
    by (auto simp: of_char_digit ds de)
  have bounds: "?B \<le> 9" "?B' \<le> 9" "?D \<le> 9" "?D' \<le> 9"
    using ds de by (simp_all add: digit_val_le_9)
  have num: "js_lt (timeToMinutes s) (timeToMinutes e) \<longleftrightarrow>
      (10 * ?A + ?B) * 60 + (10 * ?C + ?D) < (10 * ?A' + ?B') * 60 + (10 * ?C' + ?D')"
    unfolding s e
    by (simp only: timeToMinutes_HHmm[OF ds] timeToMinutes_HHmm[OF de] js_lt.simps of_nat_less_iff)
  show ?thesis
    unfolding lex num using bounds c6 c6' by (rule lex_minutes)
qed

text \<open>
  C8, as the specification states it, fails in two places. The save operation of the
  application, \<open>handleSaveEvent\<close>, checks nothing: a draft with a blank title and an end
  before its start is appended. And the modal compares the two times as strings, not as
  minute offsets: with the start 10:00 and the end 9:30 the end is 30 minutes before the
  start, but the string 10:00 is below the string 9:30 and the draft is passed on.
\<close>

theorem save_validation_counterexample:
  "trim (d_title blankDraft) = [] \<and>
   js_le (timeToMinutes (d_endTime blankDraft)) (timeToMinutes (d_startTime blankDraft)) \<and>
   handleSaveEvent 7 blankDraft [] =
     [\<lparr>ev_id = ''7'', ev_title = ''  '', ev_description = Some [], ev_date = 1714521600000,
       ev_startTime = ''10:00'', ev_endTime = ''09:00'', ev_color = ''blue'', ev_todos = []\<rparr>] \<and>
   handleSaveEvent 7 blankDraft [] \<noteq> [] \<and>
   js_le (timeToMinutes ''9:30'') (timeToMinutes ''10:00'') \<and>
   fst (saveEventFromModal 7 (exampleForm ''Riunione'' ''10:00'' ''9:30'') []) = None \<and>
   snd (saveEventFromModal 7 (exampleForm ''Riunione'' ''10:00'' ''9:30'') []) \<noteq> []"
proof -
  have a: "trim (d_title blankDraft) = []"
    by code_simp
  have b: "js_le (timeToMinutes (d_endTime blankDraft)) (timeToMinutes (d_startTime blankDraft))"
    by code_simp
  have n: "show_nat 7 = ''7''"
    by code_simp
  have c: "handleSaveEvent 7 blankDraft [] =
     [\<lparr>ev_id = ''7'', ev_title = ''  '', ev_description = Some [], ev_date = 1714521600000,
       ev_startTime = ''10:00'', ev_endTime = ''09:00'', ev_color = ''blue'', ev_todos = []\<rparr>]"
    by (simp add: handleSaveEvent_def blankDraft_def n)
  have d: "js_le (timeToMinutes ''9:30'') (timeToMinutes ''10:00'')"
    by code_simp
  have e: "EventModal_handleSave (exampleForm ''Riunione'' ''10:00'' ''9:30'') =
      Inr \<lparr>d_id = None, d_title = ''Riunione'', d_description = Some [], d_date = 1714521600000,
           d_startTime = ''10:00'', d_endTime = ''9:30'', d_color = ''blue'', d_todos = []\<rparr>"
    by code_simp
  have f: "fst (saveEventFromModal 7 (exampleForm ''Riunione'' ''10:00'' ''9:30'') []) = None"
    by (simp add: saveEventFromModal_def e)
  have g: "snd (saveEventFromModal 7 (exampleForm ''Riunione'' ''10:00'' ''9:30'') []) \<noteq> []"
    by (simp add: saveEventFromModal_def e handleSaveEvent_def)
  from a b c d f g show ?thesis
    by simp
qed

text \<open>
  C8, amended: saving from the event modal a draft whose title trims to empty, or whose
  start time is not below its end time as strings, is rejected: an error is shown,
  \<open>onSave\<close> is not called and the events are untouched. For two times of the form HH:mm
  with minutes below 60 the comparison of the strings is the comparison of the minute
  offsets, so there a start at or after the end in minutes is rejected. This validation
  is that of the modal only.
\<close>

theorem modal_save_validation:
  "(trim (m_title st) = [] \<longrightarrow> saveEventFromModal now st evs = (Some TitleRequired, evs)) \<and>
   (trim (m_title st) \<noteq> [] \<and> js_str_ge (m_startTime st) (m_endTime st) \<longrightarrow>
      saveEventFromModal now st evs = (Some EndNotAfterStart, evs)) \<and>
   (trim (m_title st) = [] \<or> js_str_ge (m_startTime st) (m_endTime st) \<longrightarrow>
      (\<exists>err. saveEventFromModal now st evs = (Some err, evs))) \<and>
   (isHHmm (m_startTime st) \<and> isHHmm (m_endTime st) \<longrightarrow>
      (js_str_ge (m_startTime st) (m_endTime st) \<longleftrightarrow>
       js_le (timeToMinutes (m_endTime st)) (timeToMinutes (m_startTime st)))) \<and>
   (isHHmm (m_startTime st) \<and> isHHmm (m_endTime st) \<and>
    js_le (timeToMinutes (m_endTime st)) (timeToMinutes (m_startTime st)) \<longrightarrow>
      (\<exists>err. saveEventFromModal now st evs = (Some err, evs)))"
proof -
  have rej: "trim (m_title st) = [] \<longrightarrow> saveEventFromModal now st evs = (Some TitleRequired, evs)"
    by (simp add: saveEventFromModal_def EventModal_handleSave_def)
  have rej2: "trim (m_title st) \<noteq> [] \<and> js_str_ge (m_startTime st) (m_endTime st) \<longrightarrow>
      saveEventFromModal now st evs = (Some EndNotAfterStart, evs)"
    by (simp add: saveEventFromModal_def EventModal_handleSave_def)
  have eq: "js_str_ge (m_startTime st) (m_endTime st) \<longleftrightarrow>
       js_le (timeToMinutes (m_endTime st)) (timeToMinutes (m_startTime st))"
    if w: "isHHmm (m_startTime st) \<and> isHHmm (m_endTime st)"
  proof -
    from w obtain x y where "timeToMinutes (m_startTime st) = Fin x" "timeToMinutes (m_endTime st) = Fin y"
      by (metis isHHmm_D timeToMinutes_HHmm)
    moreover from w have "js_str_lt (m_startTime st) (m_endTime st) \<longleftrightarrow>
        js_lt (timeToMinutes (m_startTime st)) (timeToMinutes (m_endTime st))"
      by (simp add: js_str_lt_HHmm)
    ultimately show ?thesis
      by (auto simp: js_str_ge_def js_le_def)
  qed
  from rej rej2 eq show ?thesis
    by blast
qed

theorem modal_save_validation_witness:
  "saveEventFromModal 7 (exampleForm ''  '' ''09:00'' ''10:00'') scenarioA = (Some TitleRequired, scenarioA) \<and>
   saveEventFromModal 7 (exampleForm ''Riunione'' ''10:00'' ''09:00'') scenarioA =
     (Some EndNotAfterStart, scenarioA)"
proof -
  have h1: "trim (m_title (exampleForm ''  '' ''09:00'' ''10:00'')) = []"
    by code_simp
  have h2: "trim (m_title (exampleForm ''Riunione'' ''10:00'' ''09:00'')) \<noteq> [] \<and>
      js_str_ge (m_startTime (exampleForm ''Riunione'' ''10:00'' ''09:00''))
                (m_endTime (exampleForm ''Riunione'' ''10:00'' ''09:00''))"
    by code_simp
  from modal_save_validation[of "exampleForm ''  '' ''09:00'' ''10:00''" 7 scenarioA] h1
  have "saveEventFromModal 7 (exampleForm ''  '' ''09:00'' ''10:00'') scenarioA = (Some TitleRequired, scenarioA)"
    by blast
  moreover from modal_save_validation[of "exampleForm ''Riunione'' ''10:00'' ''09:00''" 7 scenarioA] h2
  have "saveEventFromModal 7 (exampleForm ''Riunione'' ''10:00'' ''09:00'') scenarioA =
     (Some EndNotAfterStart, scenarioA)"
    by blast
  ultimately show ?thesis
    by blast
qed

end
